theory Spec2Isabelle
  imports Complex_Main
begin

section \<open>The unit-cell solver of \<^verbatim>\<open>Yproblem.py\<close>\<close>

text \<open>
  \<^verbatim>\<open>Y_solver\<close> reads a mesh of the unit cell with its subdomain markers, builds a
  periodic P1 function space, solves two corrector problems and writes the 2x2 matrix of
  effective permittivity. The finite-element work is done by the library dolfin
  (FEniCS 2017.2.0); the program itself consists of the periodic boundary
  (\<^verbatim>\<open>PeriodicBoundary.inside\<close>, \<^verbatim>\<open>PeriodicBoundary.map\<close>), the coefficient
  (\<^verbatim>\<open>Coeff.eval_cell\<close>), the variational forms and the sequence of library calls.
  Coordinates and permittivities are doubles in the program and real numbers here.
\<close>

subsection \<open>Periodic boundary\<close>

type_synonym point = "real \<times> real"

text \<open>
  \<^verbatim>\<open>near(x, x0)\<close> is a function of dolfin, called with its default tolerance. The two
  methods below take it as the parameter \<open>nr\<close>. For evaluation, \<open>dolfin_near eps\<close> is
  the library's closed interval test \<^verbatim>\<open>x0 - eps <= x <= x0 + eps\<close> and
  \<open>DOLFIN_EPS\<close> its default tolerance \<^verbatim>\<open>3.0e-16\<close>.
\<close>

definition DOLFIN_EPS :: real where
  "DOLFIN_EPS = 3 / 10 ^ 16"

definition dolfin_near :: "real \<Rightarrow> real \<Rightarrow> real \<Rightarrow> bool" where
  "dolfin_near eps x x0 = (x0 - eps \<le> x \<and> x \<le> x0 + eps)"

text \<open>
  \<^verbatim>\<open>
  def inside(self, x, on_boundary):
      return bool((near(x[0], 0) or near(x[1], 0)) and
              (not ((near(x[0], 0) and near(x[1], 1)) or
                      (near(x[0], 1) and near(x[1], 0)))) and on_boundary)
  \<close>
\<close>

definition inside :: "(real \<Rightarrow> real \<Rightarrow> bool) \<Rightarrow> point \<Rightarrow> bool \<Rightarrow> bool" where
  "inside nr x on_boundary =
     ((nr (fst x) 0 \<or> nr (snd x) 0) \<and>
      \<not> ((nr (fst x) 0 \<and> nr (snd x) 1) \<or> (nr (fst x) 1 \<and> nr (snd x) 0)) \<and>
      on_boundary)"

text \<open>
  \<^verbatim>\<open>map(self, x, y)\<close> writes the image of \<open>x\<close> into the array \<open>y\<close> it is given. The
  model takes \<open>y\<close> and returns it updated; \<open>setitem0\<close> and \<open>setitem1\<close> are the
  assignments \<^verbatim>\<open>y[0] = v\<close> and \<^verbatim>\<open>y[1] = v\<close>.
  \<^verbatim>\<open>
  def map(self, x, y):
      if near(x[0], 1) and near(x[1], 1):
          y[0] = x[0] - 1.
          y[1] = x[1] - 1.
      elif near(x[0], 1):
          y[0] = x[0] - 1.
          y[1] = x[1]
      else:
          y[0] = x[0]
          y[1] = x[1] - 1.
  \<close>
\<close>

definition setitem0 :: "point \<Rightarrow> real \<Rightarrow> point" where
  "setitem0 y v = (v, snd y)"

definition setitem1 :: "point \<Rightarrow> real \<Rightarrow> point" where
  "setitem1 y v = (fst y, v)"

definition map_pb :: "(real \<Rightarrow> real \<Rightarrow> bool) \<Rightarrow> point \<Rightarrow> point \<Rightarrow> point" where
  "map_pb nr x y =
     (if nr (fst x) 1 \<and> nr (snd x) 1 then
        setitem1 (setitem0 y (fst x - 1)) (snd x - 1)
      else if nr (fst x) 1 then
        setitem1 (setitem0 y (fst x - 1)) (snd x)
      else
        setitem1 (setitem0 y (fst x)) (snd x - 1))"

subsection \<open>Permittivity coefficient\<close>

text \<open>
  \<^verbatim>\<open>markers\<close> is a \<^verbatim>\<open>MeshFunction('int', mesh)\<close>: one integer per cell of the mesh,
  read at \<^verbatim>\<open>cell.index\<close>. \<^verbatim>\<open>values\<close> is the output array the library hands to the
  callback; an assignment to \<^verbatim>\<open>values[0]\<close> raises \<^verbatim>\<open>IndexError\<close> on an empty array.
  \<^verbatim>\<open>
  def eval_cell(self, values, x, cell):
      if markers[cell.index] == 1:
          values[0] = inner_permittivity
      else:
          values[0] = outer_permittivity
  \<close>
\<close>

datatype pyerror = IndexError

record cell =
  index :: nat

definition setitem :: "real list \<Rightarrow> nat \<Rightarrow> real \<Rightarrow> pyerror + real list" where
  "setitem values i v = (if i < length values then Inr (values[i := v]) else Inl IndexError)"

definition eval_cell ::
  "(nat \<Rightarrow> int) \<Rightarrow> real \<Rightarrow> real \<Rightarrow> real list \<Rightarrow> point \<Rightarrow> cell \<Rightarrow> pyerror + real list" where
  "eval_cell markers inner_permittivity outer_permittivity values x c =
     (if markers (index c) = 1 then setitem values 0 inner_permittivity
      else setitem values 0 outer_permittivity)"

subsection \<open>Variational forms\<close>

text \<open>
  The program builds symbolic forms and hands them to the library. \<open>expr\<close> has the
  constructors the program uses: the coefficient \<^verbatim>\<open>Coeff(mesh, degree = 0)\<close> with its
  callback \<^verbatim>\<open>eval_cell\<close>, \<^verbatim>\<open>TrialFunction(V)\<close>, \<^verbatim>\<open>TestFunction(V)\<close>,
  \<^verbatim>\<open>Function(V)\<close> with its vector of degrees of freedom, the integer constant,
  unary minus, \<open>+\<close>, \<open>*\<close>, \<^verbatim>\<open>dot\<close>, \<^verbatim>\<open>grad\<close> and \<^verbatim>\<open>Dx\<close>. \<open>Integral e\<close> is
  \<^verbatim>\<open>e * dx\<close>.
\<close>

datatype ('s, 'v) expr =
    Expression "real list \<Rightarrow> point \<Rightarrow> cell \<Rightarrow> pyerror + real list"
  | TrialFunction 's
  | TestFunction 's
  | Function 's 'v
  | IntValue int
  | Neg "('s, 'v) expr"
  | Sum "('s, 'v) expr" "('s, 'v) expr"
  | Product "('s, 'v) expr" "('s, 'v) expr"
  | Dot "('s, 'v) expr" "('s, 'v) expr"
  | Grad "('s, 'v) expr"
  | Dx "('s, 'v) expr" nat

datatype ('s, 'v) form = Integral "('s, 'v) expr"

text \<open>
  \<^verbatim>\<open>
  f1 = TrialFunction(V); f2 = TrialFunction(V)
  v1 = TestFunction(V);  v2 = TestFunction(V)
  a1 = permittivity * dot(grad(f1), grad(v1)) * dx
  L1 = -Dx(v1, 0) * permittivity * dx
  a2 = permittivity * dot(grad(f2), grad(v2)) * dx
  L2 = -Dx(v2, 1) * permittivity * dx
  \<close>
\<close>

definition a1 :: "'s \<Rightarrow> ('s, 'v) expr \<Rightarrow> ('s, 'v) form" where
  "a1 V permittivity =
     (let f1 = TrialFunction V; v1 = TestFunction V
      in Integral (Product permittivity (Dot (Grad f1) (Grad v1))))"

definition L1 :: "'s \<Rightarrow> ('s, 'v) expr \<Rightarrow> ('s, 'v) form" where
  "L1 V permittivity =
     (let v1 = TestFunction V
      in Integral (Product (Neg (Dx v1 0)) permittivity))"

definition a2 :: "'s \<Rightarrow> ('s, 'v) expr \<Rightarrow> ('s, 'v) form" where
  "a2 V permittivity =
     (let f2 = TrialFunction V; v2 = TestFunction V
      in Integral (Product permittivity (Dot (Grad f2) (Grad v2))))"

definition L2 :: "'s \<Rightarrow> ('s, 'v) expr \<Rightarrow> ('s, 'v) form" where
  "L2 V permittivity =
     (let v2 = TestFunction V
      in Integral (Product (Neg (Dx v2 1)) permittivity))"

subsection \<open>The library and the output file\<close>

text \<open>
  The calls the program makes, as a record of functions: those of dolfin, and those of
  Python's file object for the output file. A call that can raise returns \<open>Inl\<close> of
  the error. \<open>read_mesh file name\<close> is
  \<^verbatim>\<open>HDF5File(comm, file, 'r')\<close> followed by \<^verbatim>\<open>hdf.read(mesh, name, False)\<close>;
  \<open>read_markers file name mesh\<close> is \<^verbatim>\<open>MeshFunction('int', mesh)\<close> filled by
  \<^verbatim>\<open>hdf.read(markers, name)\<close>. \<open>FunctionSpace mesh inside map\<close> is
  \<^verbatim>\<open>FunctionSpace(mesh, "P", 1, constrained_domain = PeriodicBoundary())\<close>.
  \<open>vector V\<close> is the vector of a new \<^verbatim>\<open>Function(V)\<close>. \<^verbatim>\<open>assemble\<close> returns a
  matrix for a bilinear form, a vector for a linear form and a number for a functional.
  \<open>solve A x b\<close> is \<^verbatim>\<open>solve(A, x, b)\<close>, which overwrites \<open>x\<close> with the solution; the
  model returns the new \<open>x\<close>. \<open>file_open name mode\<close> is \<^verbatim>\<open>open(name, mode)\<close>,
  \<open>file_write ofile row\<close> is \<^verbatim>\<open>ofile.write('%12.6e %12.6e \n' % row)\<close> and returns the
  file object after the write (the formatting of the two numbers is not modelled),
  \<open>file_close ofile\<close> is \<^verbatim>\<open>ofile.close()\<close>.
\<close>

record ('e, 'mesh, 's, 'm, 'v, 'f) dolfin =
  near :: "real \<Rightarrow> real \<Rightarrow> bool"
  read_mesh :: "string \<Rightarrow> string \<Rightarrow> 'e + 'mesh"
  read_markers :: "string \<Rightarrow> string \<Rightarrow> 'mesh \<Rightarrow> 'e + (nat \<Rightarrow> int)"
  FunctionSpace :: "'mesh \<Rightarrow> (point \<Rightarrow> bool \<Rightarrow> bool) \<Rightarrow> (point \<Rightarrow> point \<Rightarrow> point) \<Rightarrow> 'e + 's"
  vector :: "'s \<Rightarrow> 'v"
  assemble_matrix :: "('s, 'v) form \<Rightarrow> 'e + 'm"
  assemble_vector :: "('s, 'v) form \<Rightarrow> 'e + 'v"
  assemble_scalar :: "('s, 'v) form \<Rightarrow> 'e + real"
  solve :: "'m \<Rightarrow> 'v \<Rightarrow> 'v \<Rightarrow> 'e + 'v"
  file_open :: "string \<Rightarrow> string \<Rightarrow> 'e + 'f"
  file_write :: "'f \<Rightarrow> real \<times> real \<Rightarrow> 'e + 'f"
  file_close :: "'f \<Rightarrow> 'e + unit"

text \<open>An exception leaves the function at the call that raised it.\<close>

definition and_then :: "'e + 'a \<Rightarrow> ('a \<Rightarrow> 'e + 'b) \<Rightarrow> 'e + 'b" where
  "and_then r k = (case r of Inl e \<Rightarrow> Inl e | Inr a \<Rightarrow> k a)"

subsection \<open>The solver\<close>

text \<open>
  \<open>effective\<close> holds the two rows the program has written to the file
  \<^verbatim>\<open>effective\<close>, \<open>returned\<close> the vectors of the two functions \<^verbatim>\<open>f1, f2\<close> it
  returns.
\<close>

record 'v outcome =
  effective :: "(real \<times> real) \<times> (real \<times> real)"
  returned :: "'v \<times> 'v"

text \<open>
  \<^verbatim>\<open>
  def Y_solver(mesh_folder, mesh_name, inner_permittivity, outer_permittivity):
      mesh_folder = mesh_folder + '/'
      mesh = Mesh()
      hdf = HDF5File(mesh.mpi_comm(), mesh_folder + mesh_name, 'r')
      hdf.read(mesh, mesh_folder + "mesh", False)
      markers = MeshFunction('int', mesh)
      hdf.read(markers, mesh_folder + "subdomains")
      V = FunctionSpace(mesh, "P", 1, constrained_domain = PeriodicBoundary())
      permittivity = Coeff(mesh, degree = 0)
      ...
      f1 = Function(V); F1 = f1.vector()
      f2 = Function(V); F2 = f2.vector()
      A1 = assemble(a1);  b1 = assemble(L1);  solve(A1, F1, b1)
      A2 = assemble(a2);  b2 = assemble(L2);  solve(A2, F2, b2)
      A11 = assemble(permittivity * (Dx(f1, 0) + 1) * dx)
      A12 = 0
      A21 = 0
      A22 = assemble(permittivity  * (Dx(f2, 1) + 1) * dx)
      ofile = open('effective', 'w')
      ofile.write('%12.6e %12.6e \n' %(A11, A12))
      ofile.write('%12.6e %12.6e \n' %(A21, A22))
      ofile.close()
      return f1, f2
  \<close>
\<close>

definition Y_solver ::
  "('e, 'mesh, 's, 'm, 'v, 'f) dolfin \<Rightarrow> string \<Rightarrow> string \<Rightarrow> real \<Rightarrow> real \<Rightarrow> 'e + 'v outcome" where
  "Y_solver lib mesh_folder mesh_name inner_permittivity outer_permittivity =
     (let mesh_folder = mesh_folder @ ''/'' in
      and_then (read_mesh lib (mesh_folder @ mesh_name) (mesh_folder @ ''mesh'')) (\<lambda>mesh.
      and_then (read_markers lib (mesh_folder @ mesh_name) (mesh_folder @ ''subdomains'') mesh)
        (\<lambda>markers.
      and_then (FunctionSpace lib mesh (inside (near lib)) (map_pb (near lib))) (\<lambda>V.
      let permittivity = Expression (eval_cell markers inner_permittivity outer_permittivity);
          F1 = vector lib V;
          F2 = vector lib V
      in
      and_then (assemble_matrix lib (a1 V permittivity)) (\<lambda>A1.
      and_then (assemble_vector lib (L1 V permittivity)) (\<lambda>b1.
      and_then (solve lib A1 F1 b1) (\<lambda>F1.
      and_then (assemble_matrix lib (a2 V permittivity)) (\<lambda>A2.
      and_then (assemble_vector lib (L2 V permittivity)) (\<lambda>b2.
      and_then (solve lib A2 F2 b2) (\<lambda>F2.
      and_then (assemble_scalar lib
          (Integral (Product permittivity (Sum (Dx (Function V F1) 0) (IntValue 1))))) (\<lambda>A11.
      let A12 = 0; A21 = 0 in
      and_then (assemble_scalar lib
          (Integral (Product permittivity (Sum (Dx (Function V F2) 1) (IntValue 1))))) (\<lambda>A22.
      and_then (file_open lib ''effective'' ''w'') (\<lambda>ofile.
      and_then (file_write lib ofile (A11, A12)) (\<lambda>ofile.
      and_then (file_write lib ofile (A21, A22)) (\<lambda>ofile.
      and_then (file_close lib ofile) (\<lambda>closed.
      Inr \<lparr>effective = ((A11, A12), (A21, A22)), returned = (F1, F2)\<rparr>))))))))))))))))"

text \<open>
  The variant the specification allows: the stiffness matrix is assembled once and used
  for both solves; only the load vector is assembled again.
\<close>

definition Y_solver_reuse ::
  "('e, 'mesh, 's, 'm, 'v, 'f) dolfin \<Rightarrow> string \<Rightarrow> string \<Rightarrow> real \<Rightarrow> real \<Rightarrow> 'e + 'v outcome" where
  "Y_solver_reuse lib mesh_folder mesh_name inner_permittivity outer_permittivity =
     (let mesh_folder = mesh_folder @ ''/'' in
      and_then (read_mesh lib (mesh_folder @ mesh_name) (mesh_folder @ ''mesh'')) (\<lambda>mesh.
      and_then (read_markers lib (mesh_folder @ mesh_name) (mesh_folder @ ''subdomains'') mesh)
        (\<lambda>markers.
      and_then (FunctionSpace lib mesh (inside (near lib)) (map_pb (near lib))) (\<lambda>V.
      let permittivity = Expression (eval_cell markers inner_permittivity outer_permittivity);
          F1 = vector lib V;
          F2 = vector lib V
      in
      and_then (assemble_matrix lib (a1 V permittivity)) (\<lambda>A.
      and_then (assemble_vector lib (L1 V permittivity)) (\<lambda>b1.
      and_then (solve lib A F1 b1) (\<lambda>F1.
      and_then (assemble_vector lib (L2 V permittivity)) (\<lambda>b2.
      and_then (solve lib A F2 b2) (\<lambda>F2.
      and_then (assemble_scalar lib
          (Integral (Product permittivity (Sum (Dx (Function V F1) 0) (IntValue 1))))) (\<lambda>A11.
      let A12 = 0; A21 = 0 in
      and_then (assemble_scalar lib
          (Integral (Product permittivity (Sum (Dx (Function V F2) 1) (IntValue 1))))) (\<lambda>A22.
      and_then (file_open lib ''effective'' ''w'') (\<lambda>ofile.
      and_then (file_write lib ofile (A11, A12)) (\<lambda>ofile.
      and_then (file_write lib ofile (A21, A22)) (\<lambda>ofile.
      and_then (file_close lib ofile) (\<lambda>closed.
      Inr \<lparr>effective = ((A11, A12), (A21, A22)), returned = (F1, F2)\<rparr>)))))))))))))))"

subsection \<open>A small instance of the calls\<close>

text \<open>
  For evaluating the solver on concrete inputs: the unit square cut into two triangles,
  cell 0 tagged 1 and cell 1 tagged 2. With periodic identification the four vertices
  share one degree of freedom, so every function of the space is constant: a vector is
  one number, derivatives vanish, the stiffness matrix and both load vectors are zero,
  and a functional is the sum over the two cells of half the integrand's value there.
  The output file is the list of the rows written to it.
\<close>

datatype dolfin_error = RuntimeError | OSError

definition two_cells_markers :: "nat \<Rightarrow> int" where
  "two_cells_markers i = (if i = 0 then 1 else 2)"

definition midpoint :: "cell \<Rightarrow> point" where
  "midpoint c = (if index c = 0 then (2 / 3, 1 / 3) else (1 / 3, 2 / 3))"

fun evaluate :: "(unit, real) expr \<Rightarrow> cell \<Rightarrow> real" where
  "evaluate (Expression f) c = (case f [0] (midpoint c) c of Inr (v # vs) \<Rightarrow> v | _ \<Rightarrow> 0)"
| "evaluate (TrialFunction V) c = 0"
| "evaluate (TestFunction V) c = 0"
| "evaluate (Function V F) c = F"
| "evaluate (IntValue n) c = of_int n"
| "evaluate (Neg e) c = - evaluate e c"
| "evaluate (Sum e1 e2) c = evaluate e1 c + evaluate e2 c"
| "evaluate (Product e1 e2) c = evaluate e1 c * evaluate e2 c"
| "evaluate (Dot e1 e2) c = 0"
| "evaluate (Grad e) c = 0"
| "evaluate (Dx e i) c = 0"

definition two_cells_scalar :: "(unit, real) form \<Rightarrow> dolfin_error + real" where
  "two_cells_scalar a =
     (case a of Integral e \<Rightarrow>
        Inr (evaluate e \<lparr>index = 0\<rparr> / 2 + evaluate e \<lparr>index = 1\<rparr> / 2))"

definition two_cells ::
  "(dolfin_error, unit, unit, real, real, (real \<times> real) list) dolfin" where
  "two_cells =
     \<lparr>near = dolfin_near DOLFIN_EPS,
      read_mesh = (\<lambda>file name. Inr ()),
      read_markers = (\<lambda>file name mesh. Inr two_cells_markers),
      FunctionSpace = (\<lambda>mesh ins mp. Inr ()),
      vector = (\<lambda>V. 0),
      assemble_matrix = (\<lambda>a. Inr 0),
      assemble_vector = (\<lambda>L. Inr 0),
      assemble_scalar = two_cells_scalar,
      solve = (\<lambda>A x b. Inr x),
      file_open = (\<lambda>name mode. Inr []),
      file_write = (\<lambda>ofile row. Inr (ofile @ [row])),
      file_close = (\<lambda>ofile. Inr ())\<rparr>"

section \<open>Properties of the periodic boundary\<close>

lemma map_pb_eq:
  "map_pb nr p y =
     (if nr (fst p) 1 \<and> nr (snd p) 1 then (fst p - 1, snd p - 1)
      else if nr (fst p) 1 then (fst p - 1, snd p)
      else (fst p, snd p - 1))"
  by (simp add: map_pb_def setitem0_def setitem1_def)

lemma dolfin_near_refl: "0 \<le> eps \<Longrightarrow> dolfin_near eps a a"
  by (simp add: dolfin_near_def)

lemma dolfin_near_0_1: "eps < 1 \<Longrightarrow> \<not> dolfin_near eps 0 1"
  by (simp add: dolfin_near_def)

lemma dolfin_near_1_0: "eps < 1 \<Longrightarrow> \<not> dolfin_near eps 1 0"
  by (simp add: dolfin_near_def)

lemma dolfin_near_2_1: "eps < 1 \<Longrightarrow> \<not> dolfin_near eps 2 1"
  by (simp add: dolfin_near_def)

text \<open>
  C3. For every point \<open>p\<close> passed to the periodic map: if both coordinates are within
  tolerance of 1 the result is \<open>(p.x - 1, p.y - 1)\<close>; otherwise, if \<open>p.x\<close> is within
  tolerance of 1, it is \<open>(p.x - 1, p.y)\<close>; otherwise it is \<open>(p.x, p.y - 1)\<close>. In
  particular \<open>(1, 1)\<close> is mapped to \<open>(0, 0)\<close>. The result does not depend on the
  previous content of the output array.
\<close>

theorem map_pb_branches:
  "(nr (fst p) 1 \<and> nr (snd p) 1 \<longrightarrow> map_pb nr p y = (fst p - 1, snd p - 1)) \<and>
   (\<not> (nr (fst p) 1 \<and> nr (snd p) 1) \<and> nr (fst p) 1 \<longrightarrow> map_pb nr p y = (fst p - 1, snd p)) \<and>
   (\<not> nr (fst p) 1 \<longrightarrow> map_pb nr p y = (fst p, snd p - 1)) \<and>
   (nr 1 1 \<longrightarrow> map_pb nr (1, 1) y = (0, 0))"
  by (simp add: map_pb_eq)

theorem map_pb_branches_witness:
  "dolfin_near DOLFIN_EPS 1 1 \<and>
   map_pb (dolfin_near DOLFIN_EPS) (1, 1) (7, 7) = (0, 0) \<and>
   map_pb (dolfin_near DOLFIN_EPS) (1, 1 / 4) (7, 7) = (0, 1 / 4) \<and>
   map_pb (dolfin_near DOLFIN_EPS) (1 / 4, 1) (7, 7) = (1 / 4, 0)"
  using map_pb_branches [of "dolfin_near DOLFIN_EPS" "(1, 1)" "(7, 7)"]
    map_pb_branches [of "dolfin_near DOLFIN_EPS" "(1, 1 / 4)" "(7, 7)"]
    map_pb_branches [of "dolfin_near DOLFIN_EPS" "(1 / 4, 1)" "(7, 7)"]
  by (simp add: dolfin_near_def DOLFIN_EPS_def)

text \<open>
  C4. For every point \<open>p\<close> and flag \<open>on_boundary\<close>, \<open>inside\<close> (the spec's
  \<open>classify\<close>) is true if and only if \<open>on_boundary\<close> is true, \<open>p\<close> is on the left edge
  (\<open>x\<close> within tolerance of 0) or on the bottom edge (\<open>y\<close> within tolerance of 0), and
  \<open>p\<close> is within tolerance of neither corner \<open>(0, 1)\<close> nor \<open>(1, 0)\<close>. An edge is
  the set where one coordinate is within tolerance of 0: the test does not bound the
  other coordinate.
\<close>

theorem inside_iff:
  "inside nr p on_boundary \<longleftrightarrow>
     on_boundary \<and> (nr (fst p) 0 \<or> nr (snd p) 0) \<and>
     \<not> (nr (fst p) 0 \<and> nr (snd p) 1) \<and> \<not> (nr (fst p) 1 \<and> nr (snd p) 0)"
  by (auto simp: inside_def)

text \<open>
  With exact comparison, on the unit square: \<open>inside\<close> holds on the left edge without
  \<open>(0, 1)\<close> and on the bottom edge without \<open>(1, 0)\<close>, and nowhere else.
\<close>

lemma inside_unit_square_exact:
  assumes "0 \<le> fst p" "fst p \<le> 1" "0 \<le> snd p" "snd p \<le> 1"
  shows "inside (dolfin_near 0) p True \<longleftrightarrow>
           (fst p = 0 \<and> snd p < 1) \<or> (snd p = 0 \<and> fst p < 1)"
  using assms by (auto simp: inside_def dolfin_near_def)

text \<open>
  C5 (amended). Neither corner \<open>(0, 1)\<close> nor \<open>(1, 0)\<close> satisfies \<open>inside\<close>,
  whatever the flag. The map never returns \<open>(1, 0)\<close>, and it returns \<open>(0, 1)\<close> only
  for the input \<open>(0, 2)\<close>, which is not a point of the unit square. The corners are
  not left out of the pairing: the map sends both \<open>(0, 1)\<close> and \<open>(1, 0)\<close> to
  \<open>(0, 0)\<close>, which satisfies \<open>inside\<close>. All this for every tolerance
  \<open>0 \<le> eps < 1\<close>.
\<close>

theorem corners_not_inside_but_mapped:
  assumes "0 \<le> eps" "eps < 1"
  shows "\<not> inside (dolfin_near eps) (0, 1) b \<and> \<not> inside (dolfin_near eps) (1, 0) b \<and>
         map_pb (dolfin_near eps) p y \<noteq> (1, 0) \<and>
         (map_pb (dolfin_near eps) p y = (0, 1) \<longleftrightarrow> p = (0, 2)) \<and>
         map_pb (dolfin_near eps) (0, 1) y = (0, 0) \<and>
         map_pb (dolfin_near eps) (1, 0) y = (0, 0) \<and>
         inside (dolfin_near eps) (0, 0) True"
proof -
  have r: "dolfin_near eps 0 0" "dolfin_near eps 1 1"
    using assms by (simp_all add: dolfin_near_refl)
  have n: "\<not> dolfin_near eps 0 1" "\<not> dolfin_near eps 1 0" "\<not> dolfin_near eps 2 1"
    using assms by (simp_all add: dolfin_near_0_1 dolfin_near_1_0 dolfin_near_2_1)
  have a: "\<not> inside (dolfin_near eps) (0, 1) b" "\<not> inside (dolfin_near eps) (1, 0) b"
    using r by (simp_all add: inside_def)
  have b1: "map_pb (dolfin_near eps) p y \<noteq> (1, 0)"
  proof
    assume h: "map_pb (dolfin_near eps) p y = (1, 0)"
    obtain px py where p: "p = (px, py)" by (cases p)
    from h p r n show False
      by (auto simp: map_pb_eq split: if_splits)
  qed
  have b2: "map_pb (dolfin_near eps) p y = (0, 1) \<longleftrightarrow> p = (0, 2)"
  proof
    assume h: "map_pb (dolfin_near eps) p y = (0, 1)"
    obtain px py where p: "p = (px, py)" by (cases p)
    from h p r n show "p = (0, 2)"
      by (auto simp: map_pb_eq split: if_splits)
  next
    assume "p = (0, 2)"
    with n show "map_pb (dolfin_near eps) p y = (0, 1)"
      by (simp add: map_pb_eq)
  qed
  have c: "map_pb (dolfin_near eps) (0, 1) y = (0, 0)"
    "map_pb (dolfin_near eps) (1, 0) y = (0, 0)"
    using r n by (simp_all add: map_pb_eq)
  have d: "inside (dolfin_near eps) (0, 0) True"
    using r n by (simp add: inside_def)
  from a b1 b2 c d show ?thesis by blast
qed

theorem corners_not_inside_but_mapped_witness:
  "(0::real) \<le> DOLFIN_EPS \<and> DOLFIN_EPS < 1 \<and>
   \<not> inside (dolfin_near DOLFIN_EPS) (0, 1) True \<and>
   \<not> inside (dolfin_near DOLFIN_EPS) (1, 0) True \<and>
   map_pb (dolfin_near DOLFIN_EPS) (1, 1) (5, 5) \<noteq> (1, 0) \<and>
   map_pb (dolfin_near DOLFIN_EPS) (1, 1) (5, 5) \<noteq> (0, 1) \<and>
   inside (dolfin_near DOLFIN_EPS) (0, 0) True"
proof -
  have e: "(0::real) \<le> DOLFIN_EPS" "DOLFIN_EPS < 1"
    by (simp_all add: DOLFIN_EPS_def)
  from corners_not_inside_but_mapped [OF e, of True "(1, 1)" "(5, 5)"] e
  show ?thesis by simp
qed

text \<open>
  The specification's sentence that the corners are matched to no other point and are
  never an image of the map does not hold: with the default tolerance both corners are
  mapped to the origin, which \<open>inside\<close> accepts, and \<open>(0, 1)\<close> is the image of
  \<open>(0, 2)\<close>.
\<close>

theorem corners_paired_counterexample:
  "map_pb (dolfin_near DOLFIN_EPS) (0, 1) (5, 5) = (0, 0) \<and>
   map_pb (dolfin_near DOLFIN_EPS) (1, 0) (5, 5) = (0, 0) \<and>
   inside (dolfin_near DOLFIN_EPS) (0, 0) True \<and>
   map_pb (dolfin_near DOLFIN_EPS) (0, 2) (5, 5) = (0, 1)"
  by (simp add: map_pb_eq inside_def dolfin_near_def DOLFIN_EPS_def)

section \<open>Properties of the coefficient\<close>

text \<open>
  C6. For every cell, the coefficient writes \<open>inner_permittivity\<close> if the cell's tag is
  1 and \<open>outer_permittivity\<close> otherwise. The value depends on the tag and the two
  parameters only (not on the point \<open>x\<close>), and the call changes nothing but the entry
  \<open>values[0]\<close> through which the library receives the value.
\<close>

theorem eval_cell_value:
  "values \<noteq> [] \<Longrightarrow>
   eval_cell markers inner_permittivity outer_permittivity values x c =
     Inr (values[0 := (if markers (index c) = 1 then inner_permittivity
                       else outer_permittivity)])"
  by (simp add: eval_cell_def setitem_def)

theorem eval_cell_value_witness:
  "[0::real] \<noteq> [] \<and>
   eval_cell two_cells_markers 1 (117 / 10) [0] (2 / 3, 1 / 3) \<lparr>index = 0\<rparr> = Inr [1] \<and>
   eval_cell two_cells_markers 1 (117 / 10) [0] (1 / 3, 2 / 3) \<lparr>index = 1\<rparr> = Inr [117 / 10]"
  using eval_cell_value [of "[0]" two_cells_markers 1 "117 / 10" "(2 / 3, 1 / 3)" "\<lparr>index = 0\<rparr>"]
    eval_cell_value [of "[0]" two_cells_markers 1 "117 / 10" "(1 / 3, 2 / 3)" "\<lparr>index = 1\<rparr>"]
  by (simp add: two_cells_markers_def)

text \<open>
  C10. For every cell whose tag is not 1, tags outside \<open>{1, 2}\<close> such as 0, 3 or a
  negative number included, the coefficient writes \<open>outer_permittivity\<close> and raises no
  error.
\<close>

theorem eval_cell_other_tags:
  "markers (index c) \<noteq> 1 \<Longrightarrow> values \<noteq> [] \<Longrightarrow>
   eval_cell markers inner_permittivity outer_permittivity values x c =
     Inr (values[0 := outer_permittivity])"
  by (simp add: eval_cell_def setitem_def)

theorem eval_cell_other_tags_witness:
  "eval_cell (\<lambda>i. 0) 1 (117 / 10) [0] (0, 0) \<lparr>index = 4\<rparr> = Inr [117 / 10] \<and>
   eval_cell (\<lambda>i. 3) 1 (117 / 10) [0] (0, 0) \<lparr>index = 4\<rparr> = Inr [117 / 10] \<and>
   eval_cell (\<lambda>i. - 5) 1 (117 / 10) [0] (0, 0) \<lparr>index = 4\<rparr> = Inr [117 / 10]"
  using eval_cell_other_tags [of "\<lambda>i. 0" "\<lparr>index = 4\<rparr>" "[0]" 1 "117 / 10" "(0, 0)"]
    eval_cell_other_tags [of "\<lambda>i. 3" "\<lparr>index = 4\<rparr>" "[0]" 1 "117 / 10" "(0, 0)"]
    eval_cell_other_tags [of "\<lambda>i. - 5" "\<lparr>index = 4\<rparr>" "[0]" 1 "117 / 10" "(0, 0)"]
  by simp

section \<open>Properties of the solver\<close>

lemma and_then_Inl: "and_then (Inl e) k = Inl e"
  by (simp add: and_then_def)

lemma and_then_Inr_apply: "and_then (Inr a) k = k a"
  by (simp add: and_then_def)

lemma and_then_Inr:
  "and_then r k = Inr b \<longleftrightarrow> (\<exists>a. r = Inr a \<and> k a = Inr b)"
  by (cases r) (simp_all add: and_then_def)

text \<open>A normal return of the solver: every call on the way has succeeded.\<close>

lemma Y_solver_InrD:
  assumes "Y_solver lib mesh_folder mesh_name inner_permittivity outer_permittivity = Inr out"
  shows "\<exists>mesh markers V A1 b1 F1 A2 b2 F2 A11 A22 ofile ofile1 ofile2.
    read_mesh lib ((mesh_folder @ ''/'') @ mesh_name) ((mesh_folder @ ''/'') @ ''mesh'')
      = Inr mesh \<and>
    read_markers lib ((mesh_folder @ ''/'') @ mesh_name)
      ((mesh_folder @ ''/'') @ ''subdomains'') mesh = Inr markers \<and>
    FunctionSpace lib mesh (inside (near lib)) (map_pb (near lib)) = Inr V \<and>
    assemble_matrix lib
      (a1 V (Expression (eval_cell markers inner_permittivity outer_permittivity))) = Inr A1 \<and>
    assemble_vector lib
      (L1 V (Expression (eval_cell markers inner_permittivity outer_permittivity))) = Inr b1 \<and>
    solve lib A1 (vector lib V) b1 = Inr F1 \<and>
    assemble_matrix lib
      (a2 V (Expression (eval_cell markers inner_permittivity outer_permittivity))) = Inr A2 \<and>
    assemble_vector lib
      (L2 V (Expression (eval_cell markers inner_permittivity outer_permittivity))) = Inr b2 \<and>
    solve lib A2 (vector lib V) b2 = Inr F2 \<and>
    assemble_scalar lib
      (Integral (Product (Expression (eval_cell markers inner_permittivity outer_permittivity))
         (Sum (Dx (Function V F1) 0) (IntValue 1)))) = Inr A11 \<and>
    assemble_scalar lib
      (Integral (Product (Expression (eval_cell markers inner_permittivity outer_permittivity))
         (Sum (Dx (Function V F2) 1) (IntValue 1)))) = Inr A22 \<and>
    file_open lib ''effective'' ''w'' = Inr ofile \<and>
    file_write lib ofile (A11, 0) = Inr ofile1 \<and>
    file_write lib ofile1 (0, A22) = Inr ofile2 \<and>
    file_close lib ofile2 = Inr () \<and>
    out = \<lparr>effective = ((A11, 0), (0, A22)), returned = (F1, F2)\<rparr>"
  using assms unfolding Y_solver_def Let_def and_then_Inr
  apply (elim exE conjE)
  apply (simp only: sum.inject)
  apply (intro exI conjI)
  apply (rule refl | assumption | (rule sym, assumption) | simp)+
  done

text \<open>On the two-cell instance the solver returns the mean of the two permittivities.\<close>

lemma Y_solver_two_cells:
  "Y_solver two_cells mesh_folder mesh_name inner_permittivity outer_permittivity =
     Inr \<lparr>effective = ((inner_permittivity / 2 + outer_permittivity / 2, 0),
                       (0, inner_permittivity / 2 + outer_permittivity / 2)),
          returned = (0, 0)\<rparr>"
  by (simp add: Y_solver_def two_cells_def and_then_def two_cells_scalar_def eval_cell_def
      setitem_def two_cells_markers_def Let_def)

text \<open>
  C1. Whenever the solver returns, with \<open>F1\<close> and \<open>F2\<close> the two solved correctors
  (\<open>F1\<close> solves the system assembled from \<open>a1\<close> and \<open>L1\<close>, \<open>F2\<close> the one from \<open>a2\<close>
  and \<open>L2\<close>, both started from the vector of a new function of the periodic space), the
  diagonal entry \<open>i\<close> of the matrix written out is the library's integral over the domain
  of the permittivity coefficient times (the derivative of corrector \<open>i\<close> in direction
  \<open>i\<close>, plus 1), and the matrix is \<open>[[A11, 0], [0, A22]]\<close>.
\<close>

theorem Y_solver_effective:
  assumes "Y_solver lib mesh_folder mesh_name inner_permittivity outer_permittivity = Inr out"
  shows "\<exists>markers V A1 b1 F1 A2 b2 F2 A11 A22.
    assemble_matrix lib
      (a1 V (Expression (eval_cell markers inner_permittivity outer_permittivity))) = Inr A1 \<and>
    assemble_vector lib
      (L1 V (Expression (eval_cell markers inner_permittivity outer_permittivity))) = Inr b1 \<and>
    solve lib A1 (vector lib V) b1 = Inr F1 \<and>
    assemble_matrix lib
      (a2 V (Expression (eval_cell markers inner_permittivity outer_permittivity))) = Inr A2 \<and>
    assemble_vector lib
      (L2 V (Expression (eval_cell markers inner_permittivity outer_permittivity))) = Inr b2 \<and>
    solve lib A2 (vector lib V) b2 = Inr F2 \<and>
    assemble_scalar lib
      (Integral (Product (Expression (eval_cell markers inner_permittivity outer_permittivity))
         (Sum (Dx (Function V F1) 0) (IntValue 1)))) = Inr A11 \<and>
    assemble_scalar lib
      (Integral (Product (Expression (eval_cell markers inner_permittivity outer_permittivity))
         (Sum (Dx (Function V F2) 1) (IntValue 1)))) = Inr A22 \<and>
    effective out = ((A11, 0), (0, A22)) \<and>
    returned out = (F1, F2)"
proof -
  from Y_solver_InrD [OF assms] obtain mesh markers V A1 b1 F1 A2 b2 F2 A11 A22 where
    m1: "assemble_matrix lib
      (a1 V (Expression (eval_cell markers inner_permittivity outer_permittivity))) = Inr A1" and
    v1: "assemble_vector lib
      (L1 V (Expression (eval_cell markers inner_permittivity outer_permittivity))) = Inr b1" and
    s1: "solve lib A1 (vector lib V) b1 = Inr F1" and
    m2: "assemble_matrix lib
      (a2 V (Expression (eval_cell markers inner_permittivity outer_permittivity))) = Inr A2" and
    v2: "assemble_vector lib
      (L2 V (Expression (eval_cell markers inner_permittivity outer_permittivity))) = Inr b2" and
    s2: "solve lib A2 (vector lib V) b2 = Inr F2" and
    i1: "assemble_scalar lib
      (Integral (Product (Expression (eval_cell markers inner_permittivity outer_permittivity))
         (Sum (Dx (Function V F1) 0) (IntValue 1)))) = Inr A11" and
    i2: "assemble_scalar lib
      (Integral (Product (Expression (eval_cell markers inner_permittivity outer_permittivity))
         (Sum (Dx (Function V F2) 1) (IntValue 1)))) = Inr A22" and
    out: "out = \<lparr>effective = ((A11, 0), (0, A22)), returned = (F1, F2)\<rparr>"
    by blast
  from out have "effective out = ((A11, 0), (0, A22))" "returned out = (F1, F2)"
    by simp_all
  with m1 v1 s1 m2 v2 s2 i1 i2 show ?thesis by blast
qed

theorem Y_solver_effective_witness:
  "Y_solver two_cells ''mesh'' ''Ymesh.h5'' 1 (117 / 10) =
     Inr \<lparr>effective = ((127 / 20, 0), (0, 127 / 20)), returned = (0, 0)\<rparr> \<and>
   (\<exists>markers V A1 b1 F1 A2 b2 F2 A11 A22.
      assemble_matrix two_cells (a1 V (Expression (eval_cell markers 1 (117 / 10)))) = Inr A1 \<and>
      assemble_vector two_cells (L1 V (Expression (eval_cell markers 1 (117 / 10)))) = Inr b1 \<and>
      solve two_cells A1 (vector two_cells V) b1 = Inr F1 \<and>
      assemble_matrix two_cells (a2 V (Expression (eval_cell markers 1 (117 / 10)))) = Inr A2 \<and>
      assemble_vector two_cells (L2 V (Expression (eval_cell markers 1 (117 / 10)))) = Inr b2 \<and>
      solve two_cells A2 (vector two_cells V) b2 = Inr F2 \<and>
      assemble_scalar two_cells
        (Integral (Product (Expression (eval_cell markers 1 (117 / 10)))
           (Sum (Dx (Function V F1) 0) (IntValue 1)))) = Inr A11 \<and>
      assemble_scalar two_cells
        (Integral (Product (Expression (eval_cell markers 1 (117 / 10)))
           (Sum (Dx (Function V F2) 1) (IntValue 1)))) = Inr A22 \<and>
      ((127 / 20, 0), (0, 127 / 20)) = ((A11, 0), (0, A22)) \<and>
      ((0::real), (0::real)) = (F1, F2))"
proof -
  have h: "Y_solver two_cells ''mesh'' ''Ymesh.h5'' 1 (117 / 10) =
     Inr \<lparr>effective = ((127 / 20, 0), (0, 127 / 20)), returned = (0, 0)\<rparr>"
    by (simp add: Y_solver_two_cells)
  from Y_solver_effective [OF h] h show ?thesis by simp
qed

text \<open>
  C2. For every library behaviour, mesh, tagging and pair of permittivities, the
  off-diagonal entries of the matrix the solver writes are the constant 0: they are
  assigned, not computed by any library call.
\<close>

theorem Y_solver_off_diagonal:
  "Y_solver lib mesh_folder mesh_name inner_permittivity outer_permittivity = Inr out \<Longrightarrow>
   snd (fst (effective out)) = 0 \<and> fst (snd (effective out)) = 0"
  by (drule Y_solver_InrD) auto

theorem Y_solver_off_diagonal_witness:
  "Y_solver two_cells ''mesh'' ''Ymesh.h5'' 3 5 =
     Inr \<lparr>effective = ((4, 0), (0, 4)), returned = (0, 0)\<rparr> \<and>
   snd (fst (effective \<lparr>effective = ((4::real, 0::real), (0::real, 4::real)),
      returned = (0::real, 0::real)\<rparr>)) = 0 \<and>
   fst (snd (effective \<lparr>effective = ((4::real, 0::real), (0::real, 4::real)),
      returned = (0::real, 0::real)\<rparr>)) = 0"
proof -
  have h: "Y_solver two_cells ''mesh'' ''Ymesh.h5'' 3 5 =
     Inr \<lparr>effective = ((4, 0), (0, 4)), returned = (0, 0)\<rparr>"
    by (simp add: Y_solver_two_cells)
  from Y_solver_off_diagonal [OF h] h show ?thesis by simp
qed

text \<open>
  The two bilinear forms are built from a trial and a test function of the same space and
  the same coefficient: they are the same form.
\<close>

lemma a2_eq_a1: "a2 V permittivity = a1 V permittivity"
  by (simp add: a1_def a2_def)

lemma and_then_again:
  "and_then r (\<lambda>a. and_then (g a) (\<lambda>b. and_then (h a b) (\<lambda>c. and_then r (k a b c)))) =
   and_then r (\<lambda>a. and_then (g a) (\<lambda>b. and_then (h a b) (\<lambda>c. k a b c a)))"
  by (cases r) (simp_all add: and_then_Inl and_then_Inr_apply)

text \<open>
  C8. The bilinear forms of the two corrector problems are the same form, so the two
  assembled stiffness matrices are the same (assembly being a function of the form), and
  the solver that assembles the matrix once and uses it for both solves returns exactly
  what the program returns, errors included.
\<close>

theorem stiffness_reuse:
  "a1 V permittivity = a2 V permittivity \<and>
   assemble_matrix lib (a1 V permittivity) = assemble_matrix lib (a2 V permittivity) \<and>
   Y_solver_reuse lib mesh_folder mesh_name inner_permittivity outer_permittivity =
     Y_solver lib mesh_folder mesh_name inner_permittivity outer_permittivity"
proof -
  have "Y_solver lib mesh_folder mesh_name inner_permittivity outer_permittivity =
     Y_solver_reuse lib mesh_folder mesh_name inner_permittivity outer_permittivity"
    unfolding Y_solver_def Y_solver_reuse_def Let_def a2_eq_a1 and_then_again ..
  then show ?thesis by (simp add: a2_eq_a1)
qed

text \<open>
  C9 (amended). The solver does not check the two permittivities and raises no
  \<^verbatim>\<open>ConfigurationError\<close> for a zero or negative one: for every value of the two
  parameters, \<open>outer_permittivity = 0\<close> and \<open>inner_permittivity = - 1\<close> included, if
  each call it makes on the way succeeds (reading the mesh and the markers, building the
  function space, the assemblies, the two solves, opening, writing and closing the output
  file), it completes both solves, writes the matrix and returns the two correctors.
\<close>

theorem Y_solver_runs_for_any_permittivity:
  assumes "read_mesh lib ((mesh_folder @ ''/'') @ mesh_name) ((mesh_folder @ ''/'') @ ''mesh'')
      = Inr mesh"
    and "read_markers lib ((mesh_folder @ ''/'') @ mesh_name)
      ((mesh_folder @ ''/'') @ ''subdomains'') mesh = Inr markers"
    and "FunctionSpace lib mesh (inside (near lib)) (map_pb (near lib)) = Inr V"
    and "assemble_matrix lib
      (a1 V (Expression (eval_cell markers inner_permittivity outer_permittivity))) = Inr A1"
    and "assemble_vector lib
      (L1 V (Expression (eval_cell markers inner_permittivity outer_permittivity))) = Inr b1"
    and "solve lib A1 (vector lib V) b1 = Inr F1"
    and "assemble_matrix lib
      (a2 V (Expression (eval_cell markers inner_permittivity outer_permittivity))) = Inr A2"
    and "assemble_vector lib
      (L2 V (Expression (eval_cell markers inner_permittivity outer_permittivity))) = Inr b2"
    and "solve lib A2 (vector lib V) b2 = Inr F2"
    and "assemble_scalar lib
      (Integral (Product (Expression (eval_cell markers inner_permittivity outer_permittivity))
         (Sum (Dx (Function V F1) 0) (IntValue 1)))) = Inr A11"
    and "assemble_scalar lib
      (Integral (Product (Expression (eval_cell markers inner_permittivity outer_permittivity))
         (Sum (Dx (Function V F2) 1) (IntValue 1)))) = Inr A22"
    and "file_open lib ''effective'' ''w'' = Inr ofile"
    and "file_write lib ofile (A11, 0) = Inr ofile1"
    and "file_write lib ofile1 (0, A22) = Inr ofile2"
    and "file_close lib ofile2 = Inr ()"
  shows "Y_solver lib mesh_folder mesh_name inner_permittivity outer_permittivity =
    Inr \<lparr>effective = ((A11, 0), (0, A22)), returned = (F1, F2)\<rparr>"
  unfolding Y_solver_def Let_def
  by (simp only: assms and_then_Inr_apply)

theorem Y_solver_runs_for_any_permittivity_witness:
  "read_mesh two_cells ((''mesh'' @ ''/'') @ ''Ymesh.h5'') ((''mesh'' @ ''/'') @ ''mesh'')
     = Inr () \<and>
   read_markers two_cells ((''mesh'' @ ''/'') @ ''Ymesh.h5'')
     ((''mesh'' @ ''/'') @ ''subdomains'') () = Inr two_cells_markers \<and>
   FunctionSpace two_cells () (inside (near two_cells)) (map_pb (near two_cells)) = Inr () \<and>
   assemble_matrix two_cells (a1 () (Expression (eval_cell two_cells_markers (- 1) 0)))
     = Inr 0 \<and>
   assemble_vector two_cells (L1 () (Expression (eval_cell two_cells_markers (- 1) 0)))
     = Inr 0 \<and>
   solve two_cells 0 (vector two_cells ()) 0 = Inr 0 \<and>
   assemble_matrix two_cells (a2 () (Expression (eval_cell two_cells_markers (- 1) 0)))
     = Inr 0 \<and>
   assemble_vector two_cells (L2 () (Expression (eval_cell two_cells_markers (- 1) 0)))
     = Inr 0 \<and>
   assemble_scalar two_cells
     (Integral (Product (Expression (eval_cell two_cells_markers (- 1) 0))
        (Sum (Dx (Function () 0) 0) (IntValue 1)))) = Inr (- 1 / 2) \<and>
   assemble_scalar two_cells
     (Integral (Product (Expression (eval_cell two_cells_markers (- 1) 0))
        (Sum (Dx (Function () 0) 1) (IntValue 1)))) = Inr (- 1 / 2) \<and>
   file_open two_cells ''effective'' ''w'' = Inr [] \<and>
   file_write two_cells [] (- 1 / 2, 0) = Inr [(- 1 / 2, 0)] \<and>
   file_write two_cells [(- 1 / 2, 0)] (0, - 1 / 2) = Inr [(- 1 / 2, 0), (0, - 1 / 2)] \<and>
   file_close two_cells [(- 1 / 2, 0), (0, - 1 / 2)] = Inr () \<and>
   Y_solver two_cells ''mesh'' ''Ymesh.h5'' (- 1) 0 =
     Inr \<lparr>effective = ((- 1 / 2, 0), (0, - 1 / 2)), returned = (0, 0)\<rparr>"
proof -
  have c: "read_mesh two_cells ((''mesh'' @ ''/'') @ ''Ymesh.h5'')
      ((''mesh'' @ ''/'') @ ''mesh'') = Inr ()"
    "read_markers two_cells ((''mesh'' @ ''/'') @ ''Ymesh.h5'')
      ((''mesh'' @ ''/'') @ ''subdomains'') () = Inr two_cells_markers"
    "FunctionSpace two_cells () (inside (near two_cells)) (map_pb (near two_cells)) = Inr ()"
    "assemble_matrix two_cells (a1 () (Expression (eval_cell two_cells_markers (- 1) 0)))
      = Inr 0"
    "assemble_vector two_cells (L1 () (Expression (eval_cell two_cells_markers (- 1) 0)))
      = Inr 0"
    "solve two_cells 0 (vector two_cells ()) 0 = Inr 0"
    "assemble_matrix two_cells (a2 () (Expression (eval_cell two_cells_markers (- 1) 0)))
      = Inr 0"
    "assemble_vector two_cells (L2 () (Expression (eval_cell two_cells_markers (- 1) 0)))
      = Inr 0"
    "solve two_cells 0 (vector two_cells ()) 0 = Inr 0"
    "assemble_scalar two_cells
      (Integral (Product (Expression (eval_cell two_cells_markers (- 1) 0))
         (Sum (Dx (Function () 0) 0) (IntValue 1)))) = Inr (- 1 / 2)"
    "assemble_scalar two_cells
      (Integral (Product (Expression (eval_cell two_cells_markers (- 1) 0))
         (Sum (Dx (Function () 0) 1) (IntValue 1)))) = Inr (- 1 / 2)"
    "file_open two_cells ''effective'' ''w'' = Inr []"
    "file_write two_cells [] (- 1 / 2, 0) = Inr [(- 1 / 2, 0)]"
    "file_write two_cells [(- 1 / 2, 0)] (0, - 1 / 2) = Inr [(- 1 / 2, 0), (0, - 1 / 2)]"
    "file_close two_cells [(- 1 / 2, 0), (0, - 1 / 2)] = Inr ()"
    by (simp_all add: two_cells_def two_cells_scalar_def eval_cell_def setitem_def
        two_cells_markers_def)
  from Y_solver_runs_for_any_permittivity [OF c] c show ?thesis by simp
qed

text \<open>
  The specification's \<^verbatim>\<open>ConfigurationError\<close> is not raised: with
  \<open>outer_permittivity = 0\<close>, and with \<open>inner_permittivity = - 1\<close>, the solver runs
  both solves and returns a matrix.
\<close>

theorem zero_and_negative_permittivity_counterexample:
  "Y_solver two_cells ''mesh'' ''Ymesh.h5'' 1 0 =
     Inr \<lparr>effective = ((1 / 2, 0), (0, 1 / 2)), returned = (0, 0)\<rparr> \<and>
   Y_solver two_cells ''mesh'' ''Ymesh.h5'' (- 1) (117 / 10) =
     Inr \<lparr>effective = ((107 / 20, 0), (0, 107 / 20)), returned = (0, 0)\<rparr>"
  by (simp add: Y_solver_two_cells)

end
